theory Spec2Isabelle
  imports Complex_Main
begin

section \<open>GLSL values and built-in functions\<close>

text \<open>
  The fragment shader \<^verbatim>\<open>shaders/psSteepParallax.glsl\<close> computes with GLSL \<^verbatim>\<open>float\<close>
  values. They are modelled as real numbers: every operation is the exact one, without
  rounding, and the computed values are finite. A division whose divisor is zero has
  no meaning in this model (HOL gives it the value 0), so a statement about the shader
  is read off a theorem only where the divisors it depends on are not zero. The one float that the shader reads without having
  computed it, the unassigned \<^verbatim>\<open>prevUV\<close> of \<^verbatim>\<open>parallaxTrace\<close>, may hold anything, an
  infinity or a NaN included; it has a type of its own below.

  A \<^verbatim>\<open>sampler2D\<close> is modelled by the function from texture coordinates to the sampled
  value that \<^verbatim>\<open>texture(sampler, uv)\<close> computes; filtering and the wrap mode are part of
  that function. The height map is read only through its red channel, so its sampler
  yields a real; the two colour textures are read through \<^verbatim>\<open>.rgb\<close>.
\<close>

datatype vec2 = vec2 (vec2_x: real) (vec2_y: real)
datatype vec3 = vec3 (vec3_x: real) (vec3_y: real) (vec3_z: real)
datatype vec4 = vec4 (vec4_x: real) (vec4_y: real) (vec4_z: real) (vec4_w: real)

type_synonym sampler2D_r = "vec2 \<Rightarrow> real"
type_synonym sampler2D_rgb = "vec2 \<Rightarrow> vec3"

text \<open>Component-wise arithmetic of vectors, as the GLSL operators \<^verbatim>\<open>+ - *\<close> do it.\<close>

instantiation vec2 :: "{plus, minus, uminus, times}"
begin
definition plus_vec2 :: "vec2 \<Rightarrow> vec2 \<Rightarrow> vec2" where
  "plus_vec2 u v = vec2 (vec2_x u + vec2_x v) (vec2_y u + vec2_y v)"
definition minus_vec2 :: "vec2 \<Rightarrow> vec2 \<Rightarrow> vec2" where
  "minus_vec2 u v = vec2 (vec2_x u - vec2_x v) (vec2_y u - vec2_y v)"
definition uminus_vec2 :: "vec2 \<Rightarrow> vec2" where
  "uminus_vec2 u = vec2 (- vec2_x u) (- vec2_y u)"
definition times_vec2 :: "vec2 \<Rightarrow> vec2 \<Rightarrow> vec2" where
  "times_vec2 u v = vec2 (vec2_x u * vec2_x v) (vec2_y u * vec2_y v)"
instance ..
end

instantiation vec3 :: "{plus, minus, uminus, times}"
begin
definition plus_vec3 :: "vec3 \<Rightarrow> vec3 \<Rightarrow> vec3" where
  "plus_vec3 u v = vec3 (vec3_x u + vec3_x v) (vec3_y u + vec3_y v) (vec3_z u + vec3_z v)"
definition minus_vec3 :: "vec3 \<Rightarrow> vec3 \<Rightarrow> vec3" where
  "minus_vec3 u v = vec3 (vec3_x u - vec3_x v) (vec3_y u - vec3_y v) (vec3_z u - vec3_z v)"
definition uminus_vec3 :: "vec3 \<Rightarrow> vec3" where
  "uminus_vec3 u = vec3 (- vec3_x u) (- vec3_y u) (- vec3_z u)"
definition times_vec3 :: "vec3 \<Rightarrow> vec3 \<Rightarrow> vec3" where
  "times_vec3 u v = vec3 (vec3_x u * vec3_x v) (vec3_y u * vec3_y v) (vec3_z u * vec3_z v)"
instance ..
end

text \<open>A vector combined with a scalar: \<^verbatim>\<open>v * s\<close>, \<^verbatim>\<open>v / s\<close>, \<^verbatim>\<open>v - s\<close>.\<close>

definition mul2 :: "vec2 \<Rightarrow> real \<Rightarrow> vec2" where
  "mul2 v s = vec2 (vec2_x v * s) (vec2_y v * s)"

definition div2 :: "vec2 \<Rightarrow> real \<Rightarrow> vec2" where
  "div2 v s = vec2 (vec2_x v / s) (vec2_y v / s)"

definition mul3 :: "vec3 \<Rightarrow> real \<Rightarrow> vec3" where
  "mul3 v s = vec3 (vec3_x v * s) (vec3_y v * s) (vec3_z v * s)"

definition div3 :: "vec3 \<Rightarrow> real \<Rightarrow> vec3" where
  "div3 v s = vec3 (vec3_x v / s) (vec3_y v / s) (vec3_z v / s)"

definition sub3 :: "vec3 \<Rightarrow> real \<Rightarrow> vec3" where
  "sub3 v s = vec3 (vec3_x v - s) (vec3_y v - s) (vec3_z v - s)"

text \<open>The swizzle \<^verbatim>\<open>.yx\<close> of a \<^verbatim>\<open>vec3\<close>.\<close>

definition yx :: "vec3 \<Rightarrow> vec2" where
  "yx v = vec2 (vec3_y v) (vec3_x v)"

text \<open>
  The built-in functions, with the definitions the GLSL specification gives them:
  \<^verbatim>\<open>mix(x, y, a) = x * (1 - a) + y * a\<close>, \<^verbatim>\<open>clamp(x, lo, hi) = min(max(x, lo), hi)\<close>,
  \<^verbatim>\<open>length(v) = sqrt(dot(v, v))\<close>, \<^verbatim>\<open>normalize(v) = v / length(v)\<close>.
\<close>

definition mix :: "real \<Rightarrow> real \<Rightarrow> real \<Rightarrow> real" where
  "mix x y a = x * (1 - a) + y * a"

definition mix3 :: "vec3 \<Rightarrow> vec3 \<Rightarrow> real \<Rightarrow> vec3" where
  "mix3 u v a = mul3 u (1 - a) + mul3 v a"

definition clamp :: "real \<Rightarrow> real \<Rightarrow> real \<Rightarrow> real" where
  "clamp x lo hi = min (max x lo) hi"

definition dot :: "vec3 \<Rightarrow> vec3 \<Rightarrow> real" where
  "dot u v = vec3_x u * vec3_x v + vec3_y u * vec3_y v + vec3_z u * vec3_z v"

definition length3 :: "vec3 \<Rightarrow> real" where
  "length3 v = sqrt (dot v v)"

definition normalize3 :: "vec3 \<Rightarrow> vec3" where
  "normalize3 v = div3 v (length3 v)"

text \<open>
  The conversion \<^verbatim>\<open>int(x)\<close> of a float drops the fractional part (it rounds towards
  zero).
\<close>

definition int_of_float :: "real \<Rightarrow> int" where
  "int_of_float x = (if 0 \<le> x then \<lfloor>x\<rfloor> else \<lceil>x\<rceil>)"

section \<open>The content of an unassigned variable\<close>

text \<open>
  \<^verbatim>\<open>parallaxTrace\<close> declares \<^verbatim>\<open>vec2 prevUV;\<close> without an initialiser, assigns it
  in the body of its loop, and reads it after the loop. Until it is assigned its content
  is indeterminate: any two floats, finite or not. \<open>fval\<close> is the content of such a
  float: a finite number, or \<open>NonFinite\<close>, which stands for the infinities and the NaNs.

  The arithmetic that \<^verbatim>\<open>mix\<close> does on it: a finite content behaves as its number;
  a non-finite content times a finite number is not finite (an infinity times zero is a
  NaN), and neither is its sum with a finite number.
\<close>

datatype fval = Finite real | NonFinite

datatype fvec2 = fvec2 (fvec2_x: fval) (fvec2_y: fval)

fun fmul :: "fval \<Rightarrow> real \<Rightarrow> fval" where
  "fmul (Finite x) s = Finite (x * s)"
| "fmul NonFinite s = NonFinite"

fun fadd :: "fval \<Rightarrow> real \<Rightarrow> fval" where
  "fadd (Finite x) y = Finite (x + y)"
| "fadd NonFinite y = NonFinite"

text \<open>A computed \<^verbatim>\<open>vec2\<close> as a content, and the finite vector that a content is, if any.\<close>

definition finite2 :: "vec2 \<Rightarrow> fvec2" where
  "finite2 v = fvec2 (Finite (vec2_x v)) (Finite (vec2_y v))"

fun the_finite2 :: "fvec2 \<Rightarrow> vec2 option" where
  "the_finite2 (fvec2 (Finite x) (Finite y)) = Some (vec2 x y)"
| "the_finite2 (fvec2 a b) = None"

text \<open>
  \<^verbatim>\<open>mix(u, v, a) = u * (1 - a) + v * a\<close> where the first vector is a content and the
  second a computed vector.
\<close>

definition fmix2 :: "fvec2 \<Rightarrow> vec2 \<Rightarrow> real \<Rightarrow> fvec2" where
  "fmix2 u v a =
     fvec2 (fadd (fmul (fvec2_x u) (1 - a)) (vec2_x v * a))
           (fadd (fmul (fvec2_y u) (1 - a)) (vec2_y v * a))"

section \<open>The constants and helpers of the shader\<close>

definition diffuseCoeff :: real where "diffuseCoeff = 0.7"
definition baseSpecularCoeff :: real where "baseSpecularCoeff = 0.6"
definition aoMin :: real where "aoMin = 0.08"
definition shadowMin :: real where "shadowMin = 0.1"
definition AO_SAMPLES :: int where "AO_SAMPLES = 8"
definition AO_RADIUS :: real where "AO_RADIUS = 0.012"

definition saturate :: "real \<Rightarrow> real" where
  "saturate x = clamp x 0 1"

definition lerp :: "real \<Rightarrow> real \<Rightarrow> real \<Rightarrow> real" where
  "lerp a b t = a + t * (b - a)"

section \<open>parallaxTrace\<close>

text \<open>
  The locals of \<^verbatim>\<open>parallaxTrace\<close> that the search loop reads and writes. \<^verbatim>\<open>prevUV\<close>
  is a content, since it starts unassigned. \<open>iters\<close> is not a variable of the shader:
  it counts the executions of the loop body.
\<close>

record trace_state =
  curUV :: vec2
  heightRem :: real
  curSample :: real
  prevUV :: fvec2
  prevSample :: real
  iters :: nat

definition numSteps :: "vec3 \<Rightarrow> real" where
  "numSteps viewDir = mix 72 36 \<bar>vec3_z viewDir\<bar>"

definition steepScale :: real where "steepScale = 1"

definition deltaUV :: "vec3 \<Rightarrow> real \<Rightarrow> vec2" where
  "deltaUV viewDir bumpScale =
     div2 (mul2 (mul2 (- yx viewDir) bumpScale) steepScale)
          (\<bar>vec3_z viewDir\<bar> * numSteps viewDir)"

definition deltaH :: "vec3 \<Rightarrow> real" where
  "deltaH viewDir = 1 / numSteps viewDir"

text \<open>
  The state before the loop. \<^verbatim>\<open>prevUV\<close> is declared without an initialiser, so its
  content there is indeterminate: the model takes it as the parameter \<open>prevUV0\<close>, which
  ranges over all contents.
\<close>

definition trace_init :: "sampler2D_r \<Rightarrow> vec2 \<Rightarrow> fvec2 \<Rightarrow> trace_state" where
  "trace_init heightMap uv prevUV0 =
     \<lparr> curUV = uv, heightRem = 1, curSample = heightMap uv,
       prevUV = prevUV0, prevSample = 1, iters = 0 \<rparr>"

definition trace_cond :: "trace_state \<Rightarrow> bool" where
  "trace_cond s \<longleftrightarrow> heightRem s > 0 \<and> curSample s < heightRem s"

definition trace_body :: "sampler2D_r \<Rightarrow> vec2 \<Rightarrow> real \<Rightarrow> trace_state \<Rightarrow> trace_state" where
  "trace_body heightMap dUV dH s =
     \<lparr> curUV = curUV s + dUV, heightRem = heightRem s - dH,
       curSample = heightMap (curUV s + dUV),
       prevUV = finite2 (curUV s), prevSample = curSample s, iters = Suc (iters s) \<rparr>"

text \<open>
  The \<^verbatim>\<open>while\<close> loop. Nothing in it bounds the number of iterations, so the model is a
  partial function: \<open>None\<close> stands for a loop that never ends.
\<close>

partial_function (option) trace_loop ::
  "sampler2D_r \<Rightarrow> vec2 \<Rightarrow> real \<Rightarrow> trace_state \<Rightarrow> trace_state option" where
  "trace_loop heightMap dUV dH s =
     (if trace_cond s then trace_loop heightMap dUV dH (trace_body heightMap dUV dH s)
      else Some s)"

text \<open>
  The refinement after the loop: the interpolation weight and the returned UV, which is
  a content because \<^verbatim>\<open>prevUV\<close> enters it.
\<close>

definition afterDepth :: "trace_state \<Rightarrow> real" where
  "afterDepth s = curSample s - heightRem s"

definition beforeDepth :: "real \<Rightarrow> trace_state \<Rightarrow> real" where
  "beforeDepth dH s = prevSample s - (heightRem s + dH)"

definition trace_t :: "real \<Rightarrow> trace_state \<Rightarrow> real" where
  "trace_t dH s = clamp (beforeDepth dH s / (beforeDepth dH s + afterDepth s)) 0 1"

definition trace_final :: "real \<Rightarrow> trace_state \<Rightarrow> fvec2" where
  "trace_final dH s = fmix2 (prevUV s) (curUV s) (trace_t dH s)"

definition parallaxTrace ::
  "sampler2D_r \<Rightarrow> vec2 \<Rightarrow> vec3 \<Rightarrow> real \<Rightarrow> fvec2 \<Rightarrow> fvec2 option" where
  "parallaxTrace heightMap uv viewDir bumpScale prevUV0 =
     map_option (trace_final (deltaH viewDir))
       (trace_loop heightMap (deltaUV viewDir bumpScale) (deltaH viewDir)
          (trace_init heightMap uv prevUV0))"

section \<open>computeHeightNormalTS\<close>

definition computeHeightNormalTS :: "sampler2D_r \<Rightarrow> vec2 \<Rightarrow> vec2 \<Rightarrow> real \<Rightarrow> vec3" where
  "computeHeightNormalTS heightMap uv texelSize bumpScale =
     (let hc = heightMap uv;
          hr = heightMap (uv + vec2 (vec2_x texelSize) 0);
          hu = heightMap (uv + vec2 0 (vec2_y texelSize));
          dx = (hr - hc) * bumpScale;
          dy = (hu - hc) * bumpScale
      in normalize3 (vec3 (- dx) (- dy) 1))"

section \<open>The blocks of main\<close>

definition lightColor :: vec3 where "lightColor = vec3 1 1 0.65"
definition ambientBase :: vec3 where "ambientBase = mul3 (vec3 0.4 0.4 0.6) 1.4"

text \<open>Decoding a texel of the normal map: \<^verbatim>\<open>normalize(texture(normalMap, uv).rgb * 2.0 - 1.0)\<close>.\<close>

definition decodeNormal :: "sampler2D_rgb \<Rightarrow> vec2 \<Rightarrow> vec3" where
  "decodeNormal normalMap uv = normalize3 (sub3 (mul3 (normalMap uv) 2) 1)"

text \<open>Step 6: the blend of the two normals.\<close>

definition blendNormal :: "vec3 \<Rightarrow> vec3 \<Rightarrow> vec3" where
  "blendNormal nM nH = normalize3 (mix3 nM nH 0.5)"

text \<open>Step 7: the light vector with its X component flipped.\<close>

definition flipX :: "vec3 \<Rightarrow> vec3" where
  "flipX v = vec3 (- vec3_x v) (vec3_y v) (vec3_z v)"

text \<open>Step 10: the specular term with its height-based boost.\<close>

definition specularTerm :: "real \<Rightarrow> real \<Rightarrow> real" where
  "specularTerm NdotH hVal =
     (let boost = lerp 0.9 2.5 (hVal powr 2.5);
          expo = lerp 32 96 hVal
      in (NdotH powr expo) * baseSpecularCoeff * boost)"

text \<open>
  Step 11: ambient occlusion. \<open>aoSample\<close> is the body of the \<^verbatim>\<open>for\<close> loop for the
  sample \<open>i\<close>, the value added to \<^verbatim>\<open>sumAO\<close>.
\<close>

definition aoSample ::
  "sampler2D_r \<Rightarrow> sampler2D_rgb \<Rightarrow> vec2 \<Rightarrow> real \<Rightarrow> vec3 \<Rightarrow> int \<Rightarrow> real" where
  "aoSample heightMap normalMap finalUV hVal N i =
     (let ang = 6.2831853 * real_of_int i / real_of_int AO_SAMPLES;
          dir = vec2 (cos ang) (sin ang);
          uvS = finalUV + mul2 dir AO_RADIUS;
          neighborH = heightMap uvS;
          rawAO = saturate (hVal - neighborH + 0.03);
          nS = decodeNormal normalMap uvS
      in rawAO * (0.4 + 0.6 * max (dot N nS) 0))"

definition ambientOcclusion ::
  "sampler2D_r \<Rightarrow> sampler2D_rgb \<Rightarrow> vec2 \<Rightarrow> real \<Rightarrow> vec3 \<Rightarrow> real" where
  "ambientOcclusion heightMap normalMap finalUV hVal N =
     (let sumAO = fold (\<lambda>i sumAO. sumAO + aoSample heightMap normalMap finalUV hVal N i)
                       [0..AO_SAMPLES - 1] 0;
          ao = sumAO / real_of_int AO_SAMPLES;
          flatten = \<bar>vec3_z N\<bar>;
          ao = lerp ao 1 flatten;
          ao = lerp aoMin 1 ao
      in ao)"

text \<open>
  Step 12: self-shadowing. \<open>shadowMarch\<close> is the innermost \<^verbatim>\<open>for\<close> loop; its first
  numeric argument is the number of iterations that \<^verbatim>\<open>i < numShadowSteps\<close> still allows,
  and its result is \<^verbatim>\<open>inShadow\<close>.
\<close>

definition numShadowSteps :: "vec3 \<Rightarrow> int" where
  "numShadowSteps tanLightN = int_of_float (lerp 48 12 \<bar>vec3_z tanLightN\<bar>)"

definition shadowDeltaH :: "vec3 \<Rightarrow> real" where
  "shadowDeltaH tanLightN = 1 / real_of_int (numShadowSteps tanLightN)"

definition shadowDeltaUV :: "vec3 \<Rightarrow> real \<Rightarrow> vec2" where
  "shadowDeltaUV tanLightN bumpScale =
     div2 (mul2 (mul2 (yx tanLightN) bumpScale) steepScale)
          (\<bar>vec3_z tanLightN\<bar> * real_of_int (numShadowSteps tanLightN))"

fun shadowMarch :: "sampler2D_r \<Rightarrow> vec2 \<Rightarrow> real \<Rightarrow> nat \<Rightarrow> real \<Rightarrow> vec2 \<Rightarrow> bool" where
  "shadowMarch heightMap dUV dH 0 shadowHeight shadowUV = False"
| "shadowMarch heightMap dUV dH (Suc k) shadowHeight shadowUV =
     (if shadowHeight < 1 then
        (if heightMap shadowUV > shadowHeight then True
         else shadowMarch heightMap dUV dH k (shadowHeight + dH) (shadowUV + dUV))
      else False)"

text \<open>
  The body of the two nested kernel loops for the tap \<open>(dx, dy)\<close>, acting on the pair
  of \<^verbatim>\<open>shadowSum\<close> and \<^verbatim>\<open>pcfSamples\<close>.
\<close>

definition pcfTap ::
  "sampler2D_r \<Rightarrow> vec2 \<Rightarrow> vec3 \<Rightarrow> real \<Rightarrow> int \<Rightarrow> int \<Rightarrow> real \<times> int \<Rightarrow> real \<times> int" where
  "pcfTap heightMap finalUV tanLightN bumpScale dx dy acc =
     (let pcfOffset = mul2 (vec2 (real_of_int dx) (real_of_int dy)) 0.0015;
          shadowUV = finalUV + pcfOffset;
          shadowHeight = heightMap finalUV + shadowDeltaH tanLightN * 0.1;
          inShadow = shadowMarch heightMap (shadowDeltaUV tanLightN bumpScale)
                       (shadowDeltaH tanLightN) (nat (numShadowSteps tanLightN))
                       shadowHeight shadowUV
      in (fst acc + (if inShadow then shadowMin else 1), snd acc + 1))"

definition pcfRings :: int where "pcfRings = 3"

definition pcfKernel :: "sampler2D_r \<Rightarrow> vec2 \<Rightarrow> vec3 \<Rightarrow> real \<Rightarrow> real \<times> int" where
  "pcfKernel heightMap finalUV tanLightN bumpScale =
     fold (\<lambda>dx. fold (\<lambda>dy. pcfTap heightMap finalUV tanLightN bumpScale dx dy)
                      [- pcfRings..pcfRings])
          [- pcfRings..pcfRings] (0, 4)"

definition selfShadow ::
  "sampler2D_r \<Rightarrow> vec2 \<Rightarrow> vec3 \<Rightarrow> real \<Rightarrow> real \<Rightarrow> real \<Rightarrow> real" where
  "selfShadow heightMap finalUV tanLightN bumpScale selfShadowTest NdotL =
     (if selfShadowTest > 0 \<and> NdotL > 0 then
        (let acc = pcfKernel heightMap finalUV tanLightN bumpScale;
             shadowSum = fst acc;
             pcfSamples = snd acc
         in shadowSum / real_of_int pcfSamples)
      else 1)"

text \<open>Step 13: the final composite.\<close>

definition composite :: "vec3 \<Rightarrow> real \<Rightarrow> real \<Rightarrow> real \<Rightarrow> real \<Rightarrow> vec3" where
  "composite albedo ao NdotL shadow specular =
     albedo * (mul3 ambientBase ao
               + mul3 (mul3 (mul3 lightColor diffuseCoeff) NdotL) shadow)
     + mul3 (mul3 lightColor specular) shadow"

section \<open>main\<close>

text \<open>
  The inputs of one invocation of the fragment shader: the interpolated \<^verbatim>\<open>in\<close>
  variables, the uniforms (\<open>u_heightMapSize\<close> is what \<^verbatim>\<open>textureSize(heightMap, 0)\<close>
  returns), and the indeterminate content of the local \<^verbatim>\<open>prevUV\<close> of
  \<^verbatim>\<open>parallaxTrace\<close>.
\<close>

record fragment =
  in_FragUV :: vec2
  in_tanEyeVec :: vec3
  in_tanLightVec :: vec3
  u_diffuseTexture :: sampler2D_rgb
  u_heightMap :: sampler2D_r
  u_heightMapSize :: "int \<times> int"
  u_normalMap :: sampler2D_rgb
  u_selfShadowTest :: real
  u_bumpScale :: real
  undef_prevUV :: fvec2

text \<open>The locals of \<^verbatim>\<open>main\<close> that the final composite is made of.\<close>

record main_locals =
  l_finalUV :: vec2
  l_albedo :: vec3
  l_nH :: vec3
  l_nM :: vec3
  l_N :: vec3
  l_tanLightN :: vec3
  l_NdotL :: real
  l_hVal :: real
  l_specular :: real
  l_ao :: real
  l_shadow :: real
  l_color :: vec3

definition main_from :: "fragment \<Rightarrow> vec3 \<Rightarrow> vec2 \<Rightarrow> main_locals" where
  "main_from f tanEyeN finalUV =
     (let albedo = u_diffuseTexture f finalUV;
          texelSize = vec2 (1 / real_of_int (fst (u_heightMapSize f)))
                           (1 / real_of_int (snd (u_heightMapSize f)));
          nH = computeHeightNormalTS (u_heightMap f) finalUV texelSize (u_bumpScale f);
          nM = decodeNormal (u_normalMap f) finalUV;
          N = blendNormal nM nH;
          tanLightN = flipX (normalize3 (in_tanLightVec f));
          NdotL = max (dot N tanLightN) 0;
          halfVec = normalize3 (tanLightN + tanEyeN);
          NdotH = max (dot N halfVec) 0;
          hVal = u_heightMap f finalUV;
          specular = specularTerm NdotH hVal;
          ao = ambientOcclusion (u_heightMap f) (u_normalMap f) finalUV hVal N;
          shadow = selfShadow (u_heightMap f) finalUV tanLightN (u_bumpScale f)
                     (u_selfShadowTest f) NdotL;
          color = composite albedo ao NdotL shadow specular
      in \<lparr> l_finalUV = finalUV, l_albedo = albedo, l_nH = nH, l_nM = nM, l_N = N,
           l_tanLightN = tanLightN, l_NdotL = NdotL, l_hVal = hVal,
           l_specular = specular, l_ao = ao, l_shadow = shadow, l_color = color \<rparr>)"

text \<open>
  \<open>main_body\<close> runs \<^verbatim>\<open>main\<close> up to the final composite and yields its locals;
  \<open>main\<close> yields \<^verbatim>\<open>fragColor\<close>. Both are \<open>None\<close> when the loop of
  \<^verbatim>\<open>parallaxTrace\<close> does not end, and when the UV that \<^verbatim>\<open>parallaxTrace\<close> returns is
  not finite: the texture lookups that follow have no value in the model there.
\<close>

definition main_body :: "fragment \<Rightarrow> main_locals option" where
  "main_body f =
     (let tanEyeN = normalize3 (in_tanEyeVec f)
      in Option.bind
           (parallaxTrace (u_heightMap f) (in_FragUV f) tanEyeN (u_bumpScale f)
              (undef_prevUV f))
           (\<lambda>r. map_option (main_from f tanEyeN) (the_finite2 r)))"

definition main :: "fragment \<Rightarrow> vec4 option" where
  "main f =
     map_option (\<lambda>l. vec4 (vec3_x (l_color l)) (vec3_y (l_color l)) (vec3_z (l_color l)) 1)
       (main_body f)"

section \<open>The composite as the specification words it\<close>

text \<open>
  The specification says of the final composite: specular and diffuse terms are both
  multiplied by the shadow factor; only diffuse-side terms (not the constant ambient) are
  multiplied by AO. \<open>composite_spec\<close> is the composite built to these words, to be
  compared with \<open>composite\<close>, which is the one of the shader.
\<close>

definition composite_spec :: "vec3 \<Rightarrow> real \<Rightarrow> real \<Rightarrow> real \<Rightarrow> real \<Rightarrow> vec3" where
  "composite_spec albedo ao NdotL shadow specular =
     albedo * (ambientBase
               + mul3 (mul3 (mul3 (mul3 lightColor diffuseCoeff) NdotL) shadow) ao)
     + mul3 (mul3 lightColor specular) shadow"

section \<open>A fragment in front of a cliff\<close>

text \<open>
  A concrete invocation. The height map is what bilinear filtering makes of a texture
  512 texels wide whose columns up to 258 are black and whose columns from 259 on are
  white: height 0 up to \<open>u = 258.5 / 512\<close>, a ramp one texel wide, height 1 after it. The
  normal map is flat, the albedo white. The fragment lies on the low side at
  \<open>(0.5, 0.5)\<close>, is seen face-on, and is lit from the side of the cliff, with the
  self-shadow test switched on and the bump scale 0.05 that the host sets by default.
\<close>

definition cliff :: sampler2D_r where
  "cliff p = clamp (512 * vec2_x p - 258.5) 0 1"

definition flat_normals :: sampler2D_rgb where
  "flat_normals p = vec3 0.5 0.5 1"

definition white :: sampler2D_rgb where
  "white p = vec3 1 1 1"

definition shadowed_uv :: vec2 where "shadowed_uv = vec2 0.5 0.5"
definition shadowed_light :: vec3 where "shadowed_light = vec3 0 0.6 0.8"
definition shadowed_bump :: real where "shadowed_bump = 0.05"

definition shadowed_fragment :: fragment where
  "shadowed_fragment =
     \<lparr> in_FragUV = shadowed_uv, in_tanEyeVec = vec3 0 0 1, in_tanLightVec = shadowed_light,
       u_diffuseTexture = white, u_heightMap = cliff, u_heightMapSize = (512, 512),
       u_normalMap = flat_normals, u_selfShadowTest = 1, u_bumpScale = shadowed_bump,
       undef_prevUV = finite2 (vec2 0 0) \<rparr>"

section \<open>A fragment on top of the cliff\<close>

text \<open>
  A starting UV on the high side of the cliff, where the height map yields 1 (white
  texels), a unit view direction with nonzero z-component, and an unassigned
  \<^verbatim>\<open>prevUV\<close> whose content is not finite.
\<close>

definition top_uv :: vec2 where "top_uv = vec2 0.6 0.5"
definition oblique_view :: vec3 where "oblique_view = vec3 0.6 0 0.8"
definition nonfinite2 :: fvec2 where "nonfinite2 = fvec2 NonFinite NonFinite"

section \<open>A plateau\<close>

text \<open>A height map of constant height \<open>71 / 72\<close>, half a step below the top for a face-on view.\<close>

definition plateau :: sampler2D_r where
  "plateau p = 71 / 72"

section \<open>Vectors and built-ins: basic facts\<close>

lemma vec2_add_zero: "v + vec2 0 0 = v"
  by (cases v) (simp add: plus_vec2_def)

lemma the_finite2_finite2: "the_finite2 (finite2 v) = Some v"
  by (cases v) (simp add: finite2_def)

lemma fmix2_finite:
  "fmix2 (finite2 u) v a
     = finite2 (vec2 (mix (vec2_x u) (vec2_x v) a) (mix (vec2_y u) (vec2_y v) a))"
  by (simp add: fmix2_def finite2_def mix_def)

lemma fmix2_same: "fmix2 (finite2 u) u t = finite2 u"
  by (cases u) (simp add: fmix2_def finite2_def algebra_simps)

lemma fmix2_finite_one: "fmix2 (finite2 u) v 1 = finite2 v"
  by (cases v) (simp add: fmix2_def finite2_def)

lemma fmix2_nonfinite: "fmix2 nonfinite2 v a = nonfinite2"
  by (simp add: fmix2_def nonfinite2_def)

lemma nonfinite2_not_finite: "nonfinite2 \<noteq> finite2 v"
  by (simp add: nonfinite2_def finite2_def)

lemma dot_self_nonneg: "0 \<le> dot v v"
  by (simp add: dot_def)

lemma unit_z_le_1:
  assumes "length3 v = 1"
  shows "\<bar>vec3_z v\<bar> \<le> 1"
proof -
  from assms have "dot v v = 1" by (simp add: length3_def)
  moreover have "0 \<le> vec3_x v * vec3_x v + vec3_y v * vec3_y v" by simp
  ultimately have "vec3_z v * vec3_z v \<le> 1"
    unfolding dot_def by linarith
  then have "(vec3_z v)\<^sup>2 \<le> 1\<^sup>2" by (simp add: power2_eq_square)
  then show ?thesis using abs_le_square_iff[of "vec3_z v" 1] by simp
qed

lemma dot_normalize3_le_1: "dot (normalize3 v) (normalize3 v) \<le> 1"
proof (cases "dot v v = 0")
  case True
  then show ?thesis by (simp add: normalize3_def length3_def div3_def dot_def)
next
  case False
  have "dot (normalize3 v) (normalize3 v) = dot v v / (length3 v * length3 v)"
    by (simp add: normalize3_def div3_def dot_def add_divide_distrib)
  also have "length3 v * length3 v = dot v v"
    by (simp add: length3_def dot_self_nonneg)
  finally show ?thesis using False by simp
qed


lemma normalize3_up: "normalize3 (vec3 0 0 1) = vec3 0 0 1"
  by (simp add: normalize3_def length3_def dot_def div3_def)




section \<open>The step count of parallaxTrace\<close>

lemma numSteps_eq: "numSteps v = 72 - 36 * \<bar>vec3_z v\<bar>"
  by (simp add: numSteps_def mix_def algebra_simps)

lemma numSteps_bounds: "\<bar>vec3_z v\<bar> \<le> 1 \<Longrightarrow> 36 \<le> numSteps v \<and> numSteps v \<le> 72"
  by (simp add: numSteps_eq)

lemma deltaH_bounds:
  assumes "\<bar>vec3_z v\<bar> \<le> 1"
  shows "0 < deltaH v \<and> 1 \<le> 72 * deltaH v"
proof -
  from assms have "36 \<le> numSteps v" "numSteps v \<le> 72" by (simp_all add: numSteps_eq)
  then show ?thesis by (simp add: deltaH_def field_simps)
qed

text \<open>
  C8: the step count at the face-on view direction \<open>(0, 0, 1)\<close> is strictly lower than
  at a near-grazing direction \<open>(1, 0, z)\<close> with \<open>z\<close> near 0 (here: any \<open>z\<close> with
  \<open>\<bar>z\<bar> < 1\<close>), and \<open>mix 72 36\<close> is strictly decreasing on \<open>[0, 1]\<close>, so the step count
  of one direction is lower than that of another whenever its \<open>\<bar>z\<bar>\<close> is larger.
\<close>

theorem numSteps_decreasing:
  "(\<bar>z\<bar> < 1 \<longrightarrow> numSteps (vec3 0 0 1) < numSteps (vec3 1 0 z))
   \<and> (0 \<le> a \<and> a < b \<and> b \<le> 1 \<longrightarrow> mix 72 36 b < mix 72 36 a)
   \<and> (\<bar>vec3_z v\<bar> < \<bar>vec3_z w\<bar> \<longrightarrow> numSteps w < numSteps v)"
proof (intro conjI impI)
  assume "\<bar>z\<bar> < 1"
  then show "numSteps (vec3 0 0 1) < numSteps (vec3 1 0 z)"
    by (simp add: numSteps_eq)
next
  assume "0 \<le> a \<and> a < b \<and> b \<le> 1"
  then show "mix 72 36 b < mix 72 36 a"
    by (simp add: mix_def algebra_simps)
next
  assume "\<bar>vec3_z v\<bar> < \<bar>vec3_z w\<bar>"
  then show "numSteps w < numSteps v"
    by (simp add: numSteps_eq)
qed

theorem numSteps_decreasing_witness:
  "\<bar>0::real\<bar> < 1 \<and> numSteps (vec3 0 0 1) < numSteps (vec3 1 0 0)
   \<and> (0::real) \<le> 0 \<and> (0::real) < 1 \<and> (1::real) \<le> 1 \<and> mix 72 36 1 < mix 72 36 0
   \<and> \<bar>vec3_z (vec3 1 0 0)\<bar> < \<bar>vec3_z (vec3 0 0 1)\<bar>"
  using numSteps_decreasing [of 0 0 1 "vec3 1 0 0" "vec3 0 0 1"] by simp

section \<open>The search loop of parallaxTrace\<close>

text \<open>
  A rule of total correctness for the loop: when \<open>dH\<close> is positive and the remaining
  height is at most \<open>n\<close> steps of \<open>dH\<close>, the loop ends after at most \<open>n\<close> further
  iterations, in a state where its condition is false, and it keeps every invariant of
  its body.
\<close>

lemma trace_loop_rule:
  assumes dH: "0 < dH"
    and inv: "\<And>s. I s \<Longrightarrow> trace_cond s \<Longrightarrow> I (trace_body heightMap dUV dH s)"
  shows "heightRem s \<le> real n * dH \<Longrightarrow> I s \<Longrightarrow>
    \<exists>s'. trace_loop heightMap dUV dH s = Some s' \<and> I s' \<and> \<not> trace_cond s'
        \<and> iters s' \<le> iters s + n"
proof (induction n arbitrary: s)
  case 0
  then have "\<not> trace_cond s" by (simp add: trace_cond_def)
  with 0 show ?case by (subst trace_loop.simps) simp
next
  case (Suc n)
  show ?case
  proof (cases "trace_cond s")
    case False
    with Suc.prems show ?thesis by (subst trace_loop.simps) simp
  next
    case True
    let ?s = "trace_body heightMap dUV dH s"
    have "heightRem ?s \<le> real n * dH"
      using Suc.prems(1) by (simp add: trace_body_def algebra_simps)
    moreover have "I ?s" using inv Suc.prems(2) True by blast
    ultimately obtain s' where s': "trace_loop heightMap dUV dH ?s = Some s'" "I s'"
        "\<not> trace_cond s'" "iters s' \<le> iters ?s + n"
      using Suc.IH by blast
    have "iters ?s = Suc (iters s)" by (simp add: trace_body_def)
    with s' True show ?thesis by (subst trace_loop.simps) simp
  qed
qed

text \<open>
  C9: for every height field, starting UV, unit view direction with nonzero z-component
  and bump scale (and whatever the unassigned \<^verbatim>\<open>prevUV\<close> holds), the step count lies
  in \<open>[36, 72]\<close>, \<open>deltaH\<close> is positive, every iteration lowers \<^verbatim>\<open>heightRem\<close> by
  \<open>deltaH\<close>, the loop ends after at most 73 iterations, and \<^verbatim>\<open>parallaxTrace\<close>
  returns a value.
\<close>

theorem parallaxTrace_terminates:
  assumes "length3 viewDir = 1" and "vec3_z viewDir \<noteq> 0"
  shows "36 \<le> numSteps viewDir \<and> numSteps viewDir \<le> 72 \<and> 0 < deltaH viewDir
    \<and> (\<forall>s. heightRem (trace_body heightMap (deltaUV viewDir bumpScale) (deltaH viewDir) s)
             = heightRem s - deltaH viewDir)
    \<and> (\<exists>s'. trace_loop heightMap (deltaUV viewDir bumpScale) (deltaH viewDir)
               (trace_init heightMap uv prevUV0) = Some s' \<and> iters s' \<le> 73)
    \<and> (\<exists>r. parallaxTrace heightMap uv viewDir bumpScale prevUV0 = Some r)"
proof -
  have z: "\<bar>vec3_z viewDir\<bar> \<le> 1" using assms(1) by (rule unit_z_le_1)
  have dH: "0 < deltaH viewDir" "1 \<le> 72 * deltaH viewDir"
    using deltaH_bounds[OF z] by simp_all
  have "heightRem (trace_init heightMap uv prevUV0) \<le> real 72 * deltaH viewDir"
    using dH(2) by (simp add: trace_init_def)
  from trace_loop_rule[where I="\<lambda>_. True" and n=72, OF dH(1) _ this]
  obtain s' where s': "trace_loop heightMap (deltaUV viewDir bumpScale) (deltaH viewDir)
      (trace_init heightMap uv prevUV0) = Some s'"
      "iters s' \<le> iters (trace_init heightMap uv prevUV0) + 72"
    by blast
  then have "iters s' \<le> 73" by (simp add: trace_init_def)
  with s'(1) numSteps_bounds[OF z] dH(1) show ?thesis
    by (simp add: parallaxTrace_def trace_body_def)
qed

theorem parallaxTrace_terminates_witness:
  "length3 (vec3 0.6 0 0.8) = 1 \<and> vec3_z (vec3 0.6 0 0.8) \<noteq> 0
   \<and> (\<exists>s'. trace_loop cliff (deltaUV (vec3 0.6 0 0.8) shadowed_bump) (deltaH (vec3 0.6 0 0.8))
               (trace_init cliff shadowed_uv nonfinite2) = Some s' \<and> iters s' \<le> 73)
   \<and> (\<exists>r. parallaxTrace cliff shadowed_uv (vec3 0.6 0 0.8) shadowed_bump nonfinite2 = Some r)"
proof -
  have u: "length3 (vec3 0.6 0 0.8) = 1" by (simp add: length3_def dot_def)
  have z: "vec3_z (vec3 0.6 0 0.8) \<noteq> 0" by simp
  from parallaxTrace_terminates[OF u z, of cliff shadowed_bump shadowed_uv nonfinite2] u
  show ?thesis by simp
qed

lemma normalize3_z_le_1: "\<bar>vec3_z (normalize3 v)\<bar> \<le> 1"
proof -
  let ?n = "normalize3 v"
  have "vec3_z ?n * vec3_z ?n \<le> dot ?n ?n"
    by (simp add: dot_def)
  also have "\<dots> \<le> 1" by (rule dot_normalize3_le_1)
  finally have "(vec3_z ?n)\<^sup>2 \<le> 1\<^sup>2" by (simp add: power2_eq_square)
  then show ?thesis using abs_le_square_iff[of "vec3_z ?n" 1] by simp
qed

section \<open>parallaxTrace and the unassigned prevUV\<close>

text \<open>
  The state before the loop when the height sampled at the starting UV is 1: the loop
  condition is false, the overshoots are 0 and \<open>- dH\<close>, the weight is 1, and the
  refinement mixes the content of the unassigned \<^verbatim>\<open>prevUV\<close> with the starting UV.
\<close>

lemma trace_init_top:
  assumes "heightMap uv = 1" and "dH \<noteq> 0"
  shows "\<not> trace_cond (trace_init heightMap uv p)"
    and "afterDepth (trace_init heightMap uv p) = 0"
    and "beforeDepth dH (trace_init heightMap uv p) = - dH"
    and "trace_t dH (trace_init heightMap uv p) = 1"
    and "trace_final dH (trace_init heightMap uv p) = fmix2 p uv 1"
proof -
  let ?s = "trace_init heightMap uv p"
  show c: "\<not> trace_cond ?s" using assms(1) by (simp add: trace_cond_def trace_init_def)
  show a: "afterDepth ?s = 0" using assms(1) by (simp add: afterDepth_def trace_init_def)
  show b: "beforeDepth dH ?s = - dH" by (simp add: beforeDepth_def trace_init_def)
  show t: "trace_t dH ?s = 1" using assms(2) by (simp add: trace_t_def a b clamp_def)
  show "trace_final dH ?s = fmix2 p uv 1"
    unfolding trace_final_def t by (simp add: trace_init_def)
qed

lemma top_height_trace:
  assumes "heightMap uv = 1" and "numSteps viewDir \<noteq> 0"
  shows "trace_loop heightMap (deltaUV viewDir bumpScale) (deltaH viewDir)
           (trace_init heightMap uv p) = Some (trace_init heightMap uv p)
    \<and> iters (trace_init heightMap uv p) = 0
    \<and> afterDepth (trace_init heightMap uv p) = 0
    \<and> beforeDepth (deltaH viewDir) (trace_init heightMap uv p) = - 1 / numSteps viewDir
    \<and> trace_t (deltaH viewDir) (trace_init heightMap uv p) = 1
    \<and> parallaxTrace heightMap uv viewDir bumpScale p = Some (fmix2 p uv 1)"
proof -
  have dH: "deltaH viewDir \<noteq> 0" using assms(2) by (simp add: deltaH_def)
  note top = trace_init_top[where heightMap=heightMap and uv=uv and p=p, OF assms(1) dH]
  have loop: "trace_loop heightMap (deltaUV viewDir bumpScale) (deltaH viewDir)
           (trace_init heightMap uv p) = Some (trace_init heightMap uv p)"
    using top(1) by (subst trace_loop.simps) simp
  have "iters (trace_init heightMap uv p) = 0" by (simp add: trace_init_def)
  moreover have "- deltaH viewDir = - 1 / numSteps viewDir" by (simp add: deltaH_def)
  ultimately show ?thesis
    using loop top by (simp add: parallaxTrace_def)
qed

text \<open>
  Once the loop body has run, \<^verbatim>\<open>prevUV\<close> holds a computed vector. So the UV that
  \<^verbatim>\<open>parallaxTrace\<close> returns is finite when the height sampled at the starting UV is
  below 1 (the loop then runs at least once), and when the content of the unassigned
  \<^verbatim>\<open>prevUV\<close> happens to be finite.
\<close>

lemma parallaxTrace_finite:
  assumes zb: "\<bar>vec3_z viewDir\<bar> \<le> 1"
    and fin: "heightMap uv < 1 \<or> (\<exists>p. prevUV0 = finite2 p)"
  shows "\<exists>r. parallaxTrace heightMap uv viewDir bumpScale prevUV0 = Some (finite2 r)"
proof -
  let ?init = "trace_init heightMap uv prevUV0"
  let ?dH = "deltaH viewDir"
  define I where "I s \<longleftrightarrow> (if iters s = 0 then s = ?init else (\<exists>p. prevUV s = finite2 p))"
    for s :: trace_state
  have dH: "0 < ?dH" "1 \<le> 72 * ?dH" using deltaH_bounds[OF zb] by simp_all
  have step: "I (trace_body heightMap (deltaUV viewDir bumpScale) ?dH s)" for s
    by (auto simp: I_def trace_body_def)
  have start: "I ?init" by (simp add: I_def trace_init_def)
  have "heightRem ?init \<le> real 72 * ?dH" using dH(2) by (simp add: trace_init_def)
  from trace_loop_rule[where I=I, OF dH(1) step this start]
  obtain s' where s': "trace_loop heightMap (deltaUV viewDir bumpScale) ?dH ?init = Some s'"
      "I s'" "\<not> trace_cond s'"
    by blast
  have "\<exists>p. prevUV s' = finite2 p"
  proof (cases "iters s' = 0")
    case True
    with s'(2) have eq: "s' = ?init" by (simp add: I_def)
    with s'(3) have "\<not> heightMap uv < 1" by (simp add: trace_cond_def trace_init_def)
    with fin obtain p where "prevUV0 = finite2 p" by blast
    with eq have "prevUV s' = finite2 p" by (simp add: trace_init_def)
    then show ?thesis by blast
  next
    case False
    with s'(2) show ?thesis by (auto simp: I_def)
  qed
  then obtain p where "prevUV s' = finite2 p" ..
  then have "trace_final ?dH s' = finite2 (vec2 (mix (vec2_x p) (vec2_x (curUV s')) (trace_t ?dH s'))
                                               (mix (vec2_y p) (vec2_y (curUV s')) (trace_t ?dH s')))"
    by (simp add: trace_final_def fmix2_finite)
  with s'(1) show ?thesis by (auto simp: parallaxTrace_def)
qed

text \<open>
  \<^verbatim>\<open>main\<close> calls \<^verbatim>\<open>parallaxTrace\<close> with a normalized eye vector, whose z-component is
  at most 1 in absolute value, so the search ends for every fragment; \<^verbatim>\<open>main\<close> yields
  a colour whenever the height at the fragment's UV is below 1 or the content of the
  unassigned \<^verbatim>\<open>prevUV\<close> is finite.
\<close>

lemma main_total:
  assumes "u_heightMap f (in_FragUV f) < 1 \<or> (\<exists>p. undef_prevUV f = finite2 p)"
  shows "\<exists>l. main_body f = Some l" and "\<exists>c. main f = Some c"
proof -
  from parallaxTrace_finite[where heightMap="u_heightMap f" and uv="in_FragUV f",
      OF normalize3_z_le_1 assms]
  obtain r where "parallaxTrace (u_heightMap f) (in_FragUV f) (normalize3 (in_tanEyeVec f))
      (u_bumpScale f) (undef_prevUV f) = Some (finite2 r)"
    by blast
  then show "\<exists>l. main_body f = Some l"
    by (simp add: main_body_def Let_def the_finite2_finite2)
  then show "\<exists>c. main f = Some c" by (auto simp: main_def)
qed

section \<open>parallaxTrace where the search does not move\<close>

lemma deltaUV_zero: "deltaUV viewDir 0 = vec2 0 0"
  by (simp add: deltaUV_def mul2_def div2_def)

text \<open>
  When the per-step offset is zero, the search stays at the starting UV. After at least
  one iteration \<^verbatim>\<open>prevUV\<close> holds the starting UV too, and the result is the starting UV.
  After none, the sampled height is at least 1, hence 1, the weight is 1, and the result
  is the starting UV if the content of the unassigned \<^verbatim>\<open>prevUV\<close> is finite.
\<close>

lemma parallaxTrace_no_offset:
  assumes zb: "\<bar>vec3_z viewDir\<bar> \<le> 1"
    and d0: "deltaUV viewDir bumpScale = vec2 0 0"
    and h: "heightMap uv \<le> 1"
    and fin: "heightMap uv < 1 \<or> (\<exists>p. prevUV0 = finite2 p)"
  shows "parallaxTrace heightMap uv viewDir bumpScale prevUV0 = Some (finite2 uv)"
proof -
  let ?init = "trace_init heightMap uv prevUV0"
  let ?dH = "deltaH viewDir"
  define I where
    "I s \<longleftrightarrow> curUV s = uv \<and> (if iters s = 0 then s = ?init else prevUV s = finite2 uv)"
    for s :: trace_state
  have dH: "0 < ?dH" "1 \<le> 72 * ?dH" using deltaH_bounds[OF zb] by simp_all
  have step: "I (trace_body heightMap (vec2 0 0) ?dH s)" if "I s" for s
    using that by (simp add: I_def trace_body_def vec2_add_zero)
  have start: "I ?init" by (simp add: I_def trace_init_def)
  have "heightRem ?init \<le> real 72 * ?dH" using dH(2) by (simp add: trace_init_def)
  from trace_loop_rule[where I=I and dUV="vec2 0 0" and heightMap=heightMap,
      OF dH(1) step this start]
  obtain s' where s': "trace_loop heightMap (vec2 0 0) ?dH ?init = Some s'" "I s'"
      "\<not> trace_cond s'"
    by blast
  have "trace_final ?dH s' = finite2 uv"
  proof (cases "iters s' = 0")
    case True
    with s'(2) have eq: "s' = ?init" by (simp add: I_def)
    with s'(3) have ge: "\<not> heightMap uv < 1" by (simp add: trace_cond_def trace_init_def)
    with h have "heightMap uv = 1" by simp
    moreover have "?dH \<noteq> 0" using dH(1) by simp
    ultimately have "trace_final ?dH ?init = fmix2 prevUV0 uv 1"
      by (rule trace_init_top(5)[where heightMap=heightMap and uv=uv])
    moreover from fin ge obtain p where "prevUV0 = finite2 p" by blast
    ultimately show ?thesis using eq by (simp add: fmix2_finite_one)
  next
    case False
    with s'(2) have "curUV s' = uv" "prevUV s' = finite2 uv" by (simp_all add: I_def)
    then show ?thesis by (simp add: trace_final_def fmix2_same)
  qed
  with s'(1) show ?thesis by (simp add: parallaxTrace_def d0)
qed

lemma top_uv_height: "cliff top_uv = 1"
  by (simp add: cliff_def clamp_def top_uv_def)

lemma oblique_view_unit: "length3 oblique_view = 1" "vec3_z oblique_view \<noteq> 0"
  "numSteps oblique_view \<noteq> 0"
  by (simp_all add: length3_def dot_def numSteps_eq oblique_view_def)

text \<open>
  C10 (the code departs from it): the claim is that with height 1 at the starting UV the
  loop executes no iteration and the function still returns the starting UV, the weight
  being 1 and the result not depending on the never-assigned \<^verbatim>\<open>prevUV\<close>. On top of the
  cliff the loop indeed returns the state it started in and the weight is 1, but the
  result is \<^verbatim>\<open>prevUV * 0 + uv\<close>: with a content of \<^verbatim>\<open>prevUV\<close> that is not finite the
  returned UV is not finite, with a finite content it is the starting UV.
\<close>

theorem parallaxTrace_top_height_reads_prevUV:
  "cliff top_uv = 1
   \<and> trace_loop cliff (deltaUV oblique_view shadowed_bump) (deltaH oblique_view)
         (trace_init cliff top_uv nonfinite2) = Some (trace_init cliff top_uv nonfinite2)
   \<and> iters (trace_init cliff top_uv nonfinite2) = 0
   \<and> trace_t (deltaH oblique_view) (trace_init cliff top_uv nonfinite2) = 1
   \<and> parallaxTrace cliff top_uv oblique_view shadowed_bump nonfinite2 = Some nonfinite2
   \<and> parallaxTrace cliff top_uv oblique_view shadowed_bump nonfinite2 \<noteq> Some (finite2 top_uv)
   \<and> parallaxTrace cliff top_uv oblique_view shadowed_bump (finite2 (vec2 7 7))
        = Some (finite2 top_uv)"
proof -
  note t = top_height_trace[where heightMap=cliff and uv=top_uv and bumpScale=shadowed_bump,
      OF top_uv_height oblique_view_unit(3)]
  from t[of nonfinite2] t[of "finite2 (vec2 7 7)"] top_uv_height
  show ?thesis by (simp add: fmix2_nonfinite fmix2_finite_one nonfinite2_not_finite)
qed

text \<open>
  C4 (the code departs from it): the claim is that for every starting UV, every unit view
  direction with nonzero z-component and every height field, \<^verbatim>\<open>parallaxTrace\<close> called
  with \<^verbatim>\<open>bumpScale = 0\<close> returns the starting UV. On top of the cliff, where the height
  is 1, the loop does not run, and with a content of the unassigned \<^verbatim>\<open>prevUV\<close> that is
  not finite the returned UV is not finite.
\<close>

theorem parallaxTrace_zero_bumpScale_reads_prevUV:
  "length3 oblique_view = 1 \<and> vec3_z oblique_view \<noteq> 0 \<and> cliff top_uv = 1
   \<and> parallaxTrace cliff top_uv oblique_view 0 nonfinite2 = Some nonfinite2
   \<and> parallaxTrace cliff top_uv oblique_view 0 nonfinite2 \<noteq> Some (finite2 top_uv)"
proof -
  from top_height_trace[where heightMap=cliff and uv=top_uv and bumpScale=0 and p=nonfinite2,
      OF top_uv_height oblique_view_unit(3)]
  have "parallaxTrace cliff top_uv oblique_view 0 nonfinite2 = Some nonfinite2"
    by (simp add: fmix2_nonfinite)
  then show ?thesis
    using oblique_view_unit(1,2) top_uv_height by (simp add: nonfinite2_not_finite)
qed

text \<open>
  Everywhere else the claim holds: with \<^verbatim>\<open>bumpScale = 0\<close>, a unit view direction and
  a height field with values up to 1, the starting UV is returned whenever the height
  there is below 1, and also at height 1 if the content of \<^verbatim>\<open>prevUV\<close> is finite.
\<close>

lemma parallaxTrace_zero_bumpScale_assigned:
  assumes "length3 viewDir = 1" and "vec3_z viewDir \<noteq> 0" and "heightMap uv \<le> 1"
    and "heightMap uv < 1 \<or> (\<exists>p. prevUV0 = finite2 p)"
  shows "parallaxTrace heightMap uv viewDir 0 prevUV0 = Some (finite2 uv)"
  using unit_z_le_1[OF assms(1)] deltaUV_zero assms(3,4) by (rule parallaxTrace_no_offset)

section \<open>The overshoots at the end of the search\<close>

text \<open>
  In exact arithmetic, for a view direction with \<open>\<bar>z\<bar> \<le> 1\<close> and a height field without
  negative values, the search ends with \<^verbatim>\<open>beforeDepth\<close> negative and \<^verbatim>\<open>afterDepth\<close>
  not negative: the dividend of the interpolation weight is never zero.
\<close>

lemma trace_overshoots:
  assumes zb: "\<bar>vec3_z viewDir\<bar> \<le> 1" and h: "\<And>p. 0 \<le> heightMap p"
  shows "\<exists>s. trace_loop heightMap (deltaUV viewDir bumpScale) (deltaH viewDir)
                (trace_init heightMap uv prevUV0) = Some s
             \<and> beforeDepth (deltaH viewDir) s < 0 \<and> 0 \<le> afterDepth s"
proof -
  let ?dH = "deltaH viewDir"
  define I where "I s \<longleftrightarrow> prevSample s < heightRem s + ?dH \<and> 0 \<le> curSample s"
    for s :: trace_state
  have dH: "0 < ?dH" "1 \<le> 72 * ?dH" using deltaH_bounds[OF zb] by simp_all
  have step: "I (trace_body heightMap (deltaUV viewDir bumpScale) ?dH s)"
    if "I s" "trace_cond s" for s
    using that h by (simp add: I_def trace_body_def trace_cond_def)
  have start: "I (trace_init heightMap uv prevUV0)"
    using dH(1) h by (simp add: I_def trace_init_def)
  have "heightRem (trace_init heightMap uv prevUV0) \<le> real 72 * ?dH"
    using dH(2) by (simp add: trace_init_def)
  from trace_loop_rule[where I=I, OF dH(1) step this start]
  obtain s where s: "trace_loop heightMap (deltaUV viewDir bumpScale) ?dH
      (trace_init heightMap uv prevUV0) = Some s" "I s" "\<not> trace_cond s"
    by blast
  from s(2) have "beforeDepth ?dH s < 0" by (simp add: I_def beforeDepth_def)
  moreover from s(2,3) have "0 \<le> afterDepth s"
    by (auto simp: I_def afterDepth_def trace_cond_def)
  ultimately show ?thesis using s(1) by blast
qed

text \<open>
  The divisor \<^verbatim>\<open>beforeDepth + afterDepth\<close> can be zero: on the plateau, seen face-on,
  the search stops after one step with the overshoots \<open>-1/72\<close> and \<open>1/72\<close>. What the
  division and the \<^verbatim>\<open>clamp\<close> after it yield there is outside this model.
\<close>

lemma plateau_zero_denominator:
  "\<exists>s. trace_loop plateau (deltaUV (vec3 0 0 1) bumpScale) (deltaH (vec3 0 0 1))
          (trace_init plateau uv prevUV0) = Some s
       \<and> beforeDepth (deltaH (vec3 0 0 1)) s = - 1 / 72
       \<and> afterDepth s = 1 / 72
       \<and> beforeDepth (deltaH (vec3 0 0 1)) s + afterDepth s = 0"
proof -
  have dH: "deltaH (vec3 0 0 1) = 1 / 36" by (simp add: deltaH_def numSteps_eq)
  let ?s0 = "trace_init plateau uv prevUV0"
  let ?s1 = "trace_body plateau (deltaUV (vec3 0 0 1) bumpScale) (1 / 36) ?s0"
  have c0: "trace_cond ?s0" by (simp add: trace_cond_def trace_init_def plateau_def)
  have c1: "\<not> trace_cond ?s1"
    by (simp add: trace_cond_def trace_body_def trace_init_def plateau_def)
  have "trace_loop plateau (deltaUV (vec3 0 0 1) bumpScale) (1 / 36) ?s0 = Some ?s1"
    using c0 c1 by (subst trace_loop.simps, simp, subst trace_loop.simps, simp)
  moreover have "beforeDepth (1 / 36) ?s1 = - 1 / 72" "afterDepth ?s1 = 1 / 72"
    by (simp_all add: beforeDepth_def afterDepth_def trace_body_def trace_init_def plateau_def)
  ultimately show ?thesis unfolding dH by simp
qed


section \<open>Ambient occlusion\<close>





section \<open>Self-shadowing\<close>

text \<open>What \<^verbatim>\<open>main\<close> passes to the self-shadow block, and what it takes for its normal.\<close>

lemma main_from_shadow:
  "l_shadow (main_from f tanEyeN finalUV) =
     selfShadow (u_heightMap f) finalUV (l_tanLightN (main_from f tanEyeN finalUV))
       (u_bumpScale f) (u_selfShadowTest f)
       (max (dot (l_N (main_from f tanEyeN finalUV)) (l_tanLightN (main_from f tanEyeN finalUV))) 0)"
  by (simp add: main_from_def Let_def)

lemma main_from_N:
  "l_N (main_from f tanEyeN finalUV) =
     blendNormal (decodeNormal (u_normalMap f) finalUV)
       (computeHeightNormalTS (u_heightMap f) finalUV
          (vec2 (1 / real_of_int (fst (u_heightMapSize f))) (1 / real_of_int (snd (u_heightMapSize f))))
          (u_bumpScale f))"
  by (simp add: main_from_def Let_def)

lemma main_from_tanLightN:
  "l_tanLightN (main_from f tanEyeN finalUV) = flipX (normalize3 (in_tanLightVec f))"
  by (simp add: main_from_def Let_def)

text \<open>
  C3: whenever self-shadowing is disabled (\<^verbatim>\<open>selfShadowTest <= 0\<close>), and whenever the
  surface does not face the light (\<^verbatim>\<open>dot(N, tanLightN) <= 0\<close>), the shadow factor is
  exactly 1, whatever the height field, UV, directions and bump scale are: for the block
  itself, called with \<^verbatim>\<open>NdotL = max(dot(N, tanLightN), 0)\<close>, and for the shadow factor
  that \<^verbatim>\<open>main\<close> computes from any eye direction and any corrected UV.
\<close>

theorem selfShadow_disabled_or_unlit:
  "(selfShadowTest \<le> 0 \<or> dot N tanLightN \<le> 0 \<longrightarrow>
      selfShadow heightMap finalUV tanLightN bumpScale selfShadowTest
        (max (dot N tanLightN) 0) = 1)
   \<and> (u_selfShadowTest f \<le> 0
        \<or> dot (l_N (main_from f tanEyeN uv)) (l_tanLightN (main_from f tanEyeN uv)) \<le> 0 \<longrightarrow>
      l_shadow (main_from f tanEyeN uv) = 1)"
  unfolding main_from_shadow by (auto simp: selfShadow_def)

theorem selfShadow_disabled_or_unlit_witness:
  "((0::real) \<le> 0 \<or> dot (vec3 0 0 1) shadowed_light \<le> 0)
   \<and> selfShadow cliff shadowed_uv shadowed_light shadowed_bump 0
        (max (dot (vec3 0 0 1) shadowed_light) 0) = 1
   \<and> u_selfShadowTest (shadowed_fragment\<lparr>u_selfShadowTest := 0\<rparr>) \<le> 0
   \<and> l_shadow (main_from (shadowed_fragment\<lparr>u_selfShadowTest := 0\<rparr>) (vec3 0 0 1) shadowed_uv)
        = 1"
  using selfShadow_disabled_or_unlit
          [of 0 "vec3 0 0 1" shadowed_light cliff shadowed_uv shadowed_bump
              "shadowed_fragment\<lparr>u_selfShadowTest := 0\<rparr>" "vec3 0 0 1" shadowed_uv]
  by simp

text \<open>
  With the test enabled and the surface lit, the kernel has 49 taps, each adding
  \<^verbatim>\<open>shadowMin\<close> or 1 to \<^verbatim>\<open>shadowSum\<close>, and \<^verbatim>\<open>pcfSamples\<close> ends at \<open>4 + 49 = 53\<close>:
  the shadow factor lies between \<open>49 * shadowMin / 53\<close> and \<open>49 / 53\<close>.
\<close>

lemma pcfTap_step:
  "snd (pcfTap heightMap finalUV tanLightN bumpScale dx dy acc) = snd acc + 1
   \<and> fst acc + shadowMin \<le> fst (pcfTap heightMap finalUV tanLightN bumpScale dx dy acc)
   \<and> fst (pcfTap heightMap finalUV tanLightN bumpScale dx dy acc) \<le> fst acc + 1"
  by (simp add: pcfTap_def Let_def shadowMin_def)

lemma pcf_row_bounds:
  "snd (fold (\<lambda>dy. pcfTap heightMap finalUV tanLightN bumpScale dx dy) ys acc)
     = snd acc + int (length ys)
   \<and> fst acc + shadowMin * real (length ys)
       \<le> fst (fold (\<lambda>dy. pcfTap heightMap finalUV tanLightN bumpScale dx dy) ys acc)
   \<and> fst (fold (\<lambda>dy. pcfTap heightMap finalUV tanLightN bumpScale dx dy) ys acc)
       \<le> fst acc + real (length ys)"
proof (induction ys arbitrary: acc)
  case Nil
  show ?case by simp
next
  case (Cons y ys)
  from Cons.IH[of "pcfTap heightMap finalUV tanLightN bumpScale dx y acc"]
    pcfTap_step[of heightMap finalUV tanLightN bumpScale dx y acc]
  show ?case by (simp add: algebra_simps)
qed

lemma pcf_grid_bounds:
  "snd (fold (\<lambda>dx. fold (\<lambda>dy. pcfTap heightMap finalUV tanLightN bumpScale dx dy) ys) xs acc)
     = snd acc + int (length xs * length ys)
   \<and> fst acc + shadowMin * real (length xs * length ys)
       \<le> fst (fold (\<lambda>dx. fold (\<lambda>dy. pcfTap heightMap finalUV tanLightN bumpScale dx dy) ys) xs acc)
   \<and> fst (fold (\<lambda>dx. fold (\<lambda>dy. pcfTap heightMap finalUV tanLightN bumpScale dx dy) ys) xs acc)
       \<le> fst acc + real (length xs * length ys)"
proof (induction xs arbitrary: acc)
  case Nil
  show ?case by simp
next
  case (Cons x xs)
  from Cons.IH[of "fold (\<lambda>dy. pcfTap heightMap finalUV tanLightN bumpScale x dy) ys acc"]
    pcf_row_bounds[of heightMap finalUV tanLightN bumpScale x ys acc]
  show ?case by (simp add: algebra_simps)
qed

lemma kernel_range: "[- pcfRings..pcfRings] = [-3, -2, -1, 0, 1, 2, 3]"
  by (simp add: pcfRings_def upto.simps)

lemma pcfKernel_bounds:
  "snd (pcfKernel heightMap finalUV tanLightN bumpScale) = 53
   \<and> 49 * shadowMin \<le> fst (pcfKernel heightMap finalUV tanLightN bumpScale)
   \<and> fst (pcfKernel heightMap finalUV tanLightN bumpScale) \<le> 49"
  using pcf_grid_bounds[of heightMap finalUV tanLightN bumpScale
      "[- pcfRings..pcfRings]" "[- pcfRings..pcfRings]" "(0, 4)"]
  unfolding pcfKernel_def by (simp add: kernel_range)

lemma selfShadow_enabled_range:
  assumes "0 < selfShadowTest" and "0 < NdotL"
  shows "49 / 530 \<le> selfShadow heightMap finalUV tanLightN bumpScale selfShadowTest NdotL
       \<and> selfShadow heightMap finalUV tanLightN bumpScale selfShadowTest NdotL \<le> 49 / 53"
  using assms pcfKernel_bounds[of heightMap finalUV tanLightN bumpScale]
  by (simp add: selfShadow_def Let_def shadowMin_def field_simps)

section \<open>The fragment in front of the cliff\<close>

lemma shadowMarch_numeral:
  "shadowMarch heightMap dUV dH (numeral n) shadowHeight shadowUV =
     (if shadowHeight < 1 then
        (if heightMap shadowUV > shadowHeight then True
         else shadowMarch heightMap dUV dH (pred_numeral n) (shadowHeight + dH) (shadowUV + dUV))
      else False)"
  by (simp add: numeral_eq_Suc)

lemma shadowed_light_normalized: "flipX (normalize3 shadowed_light) = shadowed_light"
  by (simp add: normalize3_def length3_def dot_def div3_def flipX_def shadowed_light_def)

lemma shadowed_steps: "numShadowSteps shadowed_light = 19"
  by (simp add: numShadowSteps_def lerp_def int_of_float_def shadowed_light_def)

lemma shadowed_tap:
  assumes "dx \<in> {-3..3}"
  shows "pcfTap cliff shadowed_uv shadowed_light shadowed_bump dx dy acc
           = (fst acc + shadowMin, snd acc + 1)"
proof -
  from assms have "dx = -3 \<or> dx = -2 \<or> dx = -1 \<or> dx = 0 \<or> dx = 1 \<or> dx = 2 \<or> dx = 3"
    by (simp; arith)
  then show ?thesis
    unfolding pcfTap_def Let_def shadowDeltaH_def shadowDeltaUV_def shadowed_steps
    by (elim disjE)
       (simp_all add: shadowMarch_numeral cliff_def clamp_def mul2_def div2_def yx_def
          steepScale_def plus_vec2_def shadowed_uv_def shadowed_light_def shadowed_bump_def
          split del: if_split)
qed

lemma shadowed_kernel:
  "pcfKernel cliff shadowed_uv shadowed_light shadowed_bump = (49 * shadowMin, 53)"
  unfolding pcfKernel_def kernel_range
  by (simp add: shadowed_tap)

lemma shadowed_selfShadow:
  assumes "0 < selfShadowTest" and "0 < NdotL"
  shows "selfShadow cliff shadowed_uv shadowed_light shadowed_bump selfShadowTest NdotL = 49 / 530"
  using assms unfolding selfShadow_def shadowed_kernel Let_def
  by (simp add: shadowMin_def)

lemma shadowed_finalUV:
  "parallaxTrace cliff shadowed_uv (vec3 0 0 1) shadowed_bump prevUV0
     = Some (finite2 shadowed_uv)"
proof (rule parallaxTrace_no_offset)
  show "\<bar>vec3_z (vec3 0 0 1)\<bar> \<le> 1" by simp
  show "deltaUV (vec3 0 0 1) shadowed_bump = vec2 0 0"
    by (simp add: deltaUV_def yx_def uminus_vec2_def mul2_def div2_def)
  show "cliff shadowed_uv \<le> 1" by (simp add: cliff_def clamp_def)
  show "cliff shadowed_uv < 1 \<or> (\<exists>p. prevUV0 = finite2 p)"
    by (simp add: cliff_def clamp_def shadowed_uv_def)
qed

lemma shadowed_nH:
  "computeHeightNormalTS cliff shadowed_uv (vec2 (1 / 512) (1 / 512)) shadowed_bump = vec3 0 0 1"
proof -
  have "cliff shadowed_uv = 0" "cliff (shadowed_uv + vec2 (1 / 512) 0) = 0"
    "cliff (shadowed_uv + vec2 0 (1 / 512)) = 0"
    by (simp_all add: cliff_def clamp_def shadowed_uv_def plus_vec2_def)
  then show ?thesis by (simp add: computeHeightNormalTS_def Let_def normalize3_up)
qed

lemma shadowed_nM: "decodeNormal flat_normals p = vec3 0 0 1"
proof -
  have "sub3 (mul3 (flat_normals p) 2) 1 = vec3 0 0 1"
    by (simp add: flat_normals_def mul3_def sub3_def)
  then show ?thesis by (simp add: decodeNormal_def normalize3_up)
qed

lemma blendNormal_up: "blendNormal (vec3 0 0 1) (vec3 0 0 1) = vec3 0 0 1"
proof -
  have "mix3 (vec3 0 0 1) (vec3 0 0 1) 0.5 = vec3 0 0 1"
    by (simp add: mix3_def mul3_def plus_vec3_def)
  then show ?thesis by (simp add: blendNormal_def normalize3_up)
qed

lemma shadowed_fields:
  "in_FragUV shadowed_fragment = shadowed_uv"
  "in_tanEyeVec shadowed_fragment = vec3 0 0 1"
  "in_tanLightVec shadowed_fragment = shadowed_light"
  "u_heightMap shadowed_fragment = cliff"
  "u_heightMapSize shadowed_fragment = (512, 512)"
  "u_normalMap shadowed_fragment = flat_normals"
  "u_selfShadowTest shadowed_fragment = 1"
  "u_bumpScale shadowed_fragment = shadowed_bump"
  "undef_prevUV shadowed_fragment = finite2 (vec2 0 0)"
  by (simp_all add: shadowed_fragment_def)

text \<open>
  C1 (the code departs from it): the claim is that the self-shadow factor used in the
  final composite lies in \<open>[shadowMin, 1]\<close> with \<open>shadowMin = 0.1\<close>. For the fragment
  in front of the cliff all 49 kernel taps are occluded, \<^verbatim>\<open>shadowSum\<close> is \<open>4.9\<close>, and
  the divisor \<^verbatim>\<open>pcfSamples\<close>, which starts at 4 instead of 0, is 53: the shadow factor
  of \<^verbatim>\<open>main\<close> is \<open>49 / 530\<close>, below \<open>shadowMin\<close>.
\<close>

theorem shadow_below_shadowMin:
  "map_option l_shadow (main_body shadowed_fragment) = Some (49 / 530)
   \<and> (49 / 530 :: real) < shadowMin"
proof -
  let ?l = "main_from shadowed_fragment (vec3 0 0 1) shadowed_uv"
  have body: "main_body shadowed_fragment = Some ?l"
    by (simp add: main_body_def Let_def shadowed_fields normalize3_up shadowed_finalUV
        the_finite2_finite2)
  have L: "l_tanLightN ?l = shadowed_light"
    unfolding main_from_tanLightN by (simp add: shadowed_fields shadowed_light_normalized)
  have N: "l_N ?l = vec3 0 0 1"
    unfolding main_from_N
    by (simp add: shadowed_fields shadowed_nM shadowed_nH blendNormal_up)
  have "0 < max (dot (vec3 0 0 1) shadowed_light) 0"
    by (simp add: dot_def shadowed_light_def)
  then have "l_shadow ?l = 49 / 530"
    unfolding main_from_shadow L N
    by (simp add: shadowed_fields shadowed_selfShadow)
  with body show ?thesis by (simp add: shadowMin_def)
qed

section \<open>The blend of the two normals\<close>

lemma blend_half:
  "blendNormal nM nH = normalize3 (nM + nH)"
proof -
  have d: "dot (mix3 nM nH 0.5) (mix3 nM nH 0.5) = dot (nM + nH) (nM + nH) / 4"
    by (simp add: dot_def mix3_def mul3_def plus_vec3_def algebra_simps)
  have l: "length3 (mix3 nM nH 0.5) = length3 (nM + nH) / 2"
    unfolding length3_def d by (simp add: real_sqrt_divide)
  show ?thesis
    unfolding blendNormal_def normalize3_def l
    by (simp add: div3_def mix3_def mul3_def plus_vec3_def)
qed

lemma main_from_normals:
  "l_N (main_from f tanEyeN finalUV)
     = blendNormal (l_nM (main_from f tanEyeN finalUV)) (l_nH (main_from f tanEyeN finalUV))"
  "l_nM (main_from f tanEyeN finalUV) = decodeNormal (u_normalMap f) finalUV"
  "l_nH (main_from f tanEyeN finalUV) =
     computeHeightNormalTS (u_heightMap f) finalUV
       (vec2 (1 / real_of_int (fst (u_heightMapSize f)))
             (1 / real_of_int (snd (u_heightMapSize f))))
       (u_bumpScale f)"
  by (simp_all add: main_from_def Let_def)

text \<open>
  C6: for every pair of normals \<open>nM\<close> (normal map) and \<open>nH\<close> (height derivative) whose
  sum is not the zero vector, the blended normal \<^verbatim>\<open>normalize(mix(nM, nH, 0.5))\<close> equals
  \<open>normalize (nM + nH)\<close>; in particular, the shading normal \<^verbatim>\<open>N\<close> of \<^verbatim>\<open>main\<close> is
  the normalized sum of the two normals that \<^verbatim>\<open>main\<close> produces at the final UV.
\<close>

theorem blendNormal_eq_normalize_sum:
  "(nM + nH \<noteq> vec3 0 0 0 \<longrightarrow> blendNormal nM nH = normalize3 (nM + nH))
   \<and> (l_nM (main_from f tanEyeN finalUV) + l_nH (main_from f tanEyeN finalUV) \<noteq> vec3 0 0 0 \<longrightarrow>
        l_N (main_from f tanEyeN finalUV)
          = normalize3 (l_nM (main_from f tanEyeN finalUV) + l_nH (main_from f tanEyeN finalUV)))"
proof (intro conjI impI)
  show "blendNormal nM nH = normalize3 (nM + nH)" by (rule blend_half)
  show "l_N (main_from f tanEyeN finalUV)
          = normalize3 (l_nM (main_from f tanEyeN finalUV) + l_nH (main_from f tanEyeN finalUV))"
    unfolding main_from_normals(1) by (rule blend_half)
qed

theorem blendNormal_eq_normalize_sum_witness:
  "vec3 0 0 1 + vec3 0.6 0 0.8 \<noteq> vec3 0 0 0
   \<and> blendNormal (vec3 0 0 1) (vec3 0.6 0 0.8) = normalize3 (vec3 0 0 1 + vec3 0.6 0 0.8)
   \<and> l_nM (main_from shadowed_fragment (vec3 0 0 1) shadowed_uv)
       + l_nH (main_from shadowed_fragment (vec3 0 0 1) shadowed_uv) \<noteq> vec3 0 0 0
   \<and> l_N (main_from shadowed_fragment (vec3 0 0 1) shadowed_uv)
       = normalize3 (l_nM (main_from shadowed_fragment (vec3 0 0 1) shadowed_uv)
                     + l_nH (main_from shadowed_fragment (vec3 0 0 1) shadowed_uv))"
proof -
  have h: "vec3 0 0 1 + vec3 0.6 0 0.8 \<noteq> vec3 0 0 0" by (simp add: plus_vec3_def)
  have "l_nM (main_from shadowed_fragment (vec3 0 0 1) shadowed_uv) = vec3 0 0 1"
    "l_nH (main_from shadowed_fragment (vec3 0 0 1) shadowed_uv) = vec3 0 0 1"
    unfolding main_from_normals by (simp_all add: shadowed_fields shadowed_nM shadowed_nH)
  then have m: "l_nM (main_from shadowed_fragment (vec3 0 0 1) shadowed_uv)
       + l_nH (main_from shadowed_fragment (vec3 0 0 1) shadowed_uv) \<noteq> vec3 0 0 0"
    by (simp add: plus_vec3_def)
  from blendNormal_eq_normalize_sum
         [of "vec3 0 0 1" "vec3 0.6 0 0.8" shadowed_fragment "vec3 0 0 1" shadowed_uv] h m
  show ?thesis by simp
qed

section \<open>The final composite\<close>

text \<open>
  C2 as the specification words it fails: with white albedo, no diffuse light
  (\<open>NdotL = 0\<close>), no shadow and no specular term, only the ambient term is left; the
  shader's colour differs from that of \<open>composite_spec\<close> and changes with the AO factor
  (\<open>1/2\<close> against 1). With \<open>NdotL = 1\<close> the two composites differ as well.
\<close>

theorem composite_ao_counterexample:
  "composite (vec3 1 1 1) (1/2) 0 1 0 \<noteq> composite_spec (vec3 1 1 1) (1/2) 0 1 0
   \<and> composite (vec3 1 1 1) (1/2) 0 1 0 \<noteq> composite (vec3 1 1 1) 1 0 1 0
   \<and> composite (vec3 1 1 1) (1/2) 1 1 0 \<noteq> composite_spec (vec3 1 1 1) (1/2) 1 1 0"
  by (simp add: composite_def composite_spec_def ambientBase_def lightColor_def
      diffuseCoeff_def mul3_def plus_vec3_def times_vec3_def)

text \<open>
  C2, amended: in the final composite the specular and the Lambertian diffuse terms are
  each multiplied by the shadow factor, and the AO factor multiplies only the ambient
  term, not the diffuse or the specular term. The colour of \<^verbatim>\<open>main\<close> is this
  composite of its albedo, AO factor, \<^verbatim>\<open>NdotL\<close>, shadow factor and specular term.
\<close>

theorem composite_structure:
  "composite albedo ao NdotL shadow specular =
     mul3 (albedo * ambientBase) ao
     + mul3 (albedo * mul3 lightColor (diffuseCoeff * NdotL) + mul3 lightColor specular) shadow
   \<and> l_color (main_from f tanEyeN finalUV) =
       composite (l_albedo (main_from f tanEyeN finalUV)) (l_ao (main_from f tanEyeN finalUV))
         (l_NdotL (main_from f tanEyeN finalUV)) (l_shadow (main_from f tanEyeN finalUV))
         (l_specular (main_from f tanEyeN finalUV))"
  by (simp add: composite_def mul3_def plus_vec3_def times_vec3_def algebra_simps
      main_from_def Let_def)

end
